theory Spec2Isabelle
  imports Main
begin

section \<open>The automation engine as seen by the session orchestrator\<close>

text \<open>
  The orchestrator (\<^verbatim>\<open>BasePlaywrightComputer\<close> and its remote subclasses) never computes
  on page content: every method is a short sequence of calls on the automation engine.
  A method is therefore embedded as the list of engine calls it issues, in program order,
  together with the exception it ends with, if any.  Pages, CDP sessions and elements are
  engine objects compared by identity; they are numbered.
\<close>

type_synonym page = nat
type_synonym element = nat
type_synonym selector = string

datatype call =
    GoBack                        \<comment> \<open>\<^verbatim>\<open>page.go_back()\<close>\<close>
  | GoForward                     \<comment> \<open>\<^verbatim>\<open>page.go_forward()\<close>\<close>
  | MouseWheel int int            \<comment> \<open>\<^verbatim>\<open>page.mouse.wheel(delta_x, delta_y)\<close>\<close>
  | MouseClick int int string     \<comment> \<open>\<^verbatim>\<open>page.mouse.click(x, y, button=b)\<close>\<close>
  | MouseMove int int             \<comment> \<open>\<^verbatim>\<open>page.mouse.move(x, y)\<close>\<close>
  | MouseDown                     \<comment> \<open>\<^verbatim>\<open>page.mouse.down()\<close>\<close>
  | MouseUp                       \<comment> \<open>\<^verbatim>\<open>page.mouse.up()\<close>\<close>
  | ScrollBy int int              \<comment> \<open>\<^verbatim>\<open>page.evaluate("window.scrollBy(dx, dy)")\<close>\<close>
  | KeyDown string                \<comment> \<open>\<^verbatim>\<open>page.keyboard.down(key)\<close>\<close>
  | KeyUp string                  \<comment> \<open>\<^verbatim>\<open>page.keyboard.up(key)\<close>\<close>
  | ExecuteBrowser string         \<comment> \<open>\<^verbatim>\<open>action.execute(context, page)\<close>\<close>
  | ExecuteInteraction string element  \<comment> \<open>\<^verbatim>\<open>action.execute(context, page, locator)\<close>\<close>
  | ShortWait                     \<comment> \<open>\<^verbatim>\<open>short_wait(page)\<close>\<close>
  | PageClose page                \<comment> \<open>\<^verbatim>\<open>page.close()\<close>\<close>
  | BrowserClose                  \<comment> \<open>\<^verbatim>\<open>browser.close()\<close>\<close>
  | PlaywrightStop                \<comment> \<open>\<^verbatim>\<open>playwright.stop()\<close>\<close>
  | RouteAbort                    \<comment> \<open>\<^verbatim>\<open>route.abort()\<close>\<close>
  | RouteContinue                 \<comment> \<open>\<^verbatim>\<open>route.continue_()\<close>\<close>
  | Print string                  \<comment> \<open>\<^verbatim>\<open>print(...)\<close>\<close>

datatype error =
    AssertionError
  | AttributeError
  | KeyError string
  | IndexError
  | ValueError
  | ElementResolutionError
  | PlaywrightError string

section \<open>Pointer primitives\<close>

text \<open>
  The navigation primitives \<^verbatim>\<open>back\<close> and \<^verbatim>\<open>forward\<close> call \<^verbatim>\<open>page.go_back()\<close> and
  \<^verbatim>\<open>page.go_forward()\<close>; the former is named \<open>back_nav\<close> here, \<open>back\<close> being an
  Isar command.
  \<^verbatim>\<open>click\<close> matches the button string against \<^verbatim>\<open>"back"\<close>, \<^verbatim>\<open>"forward"\<close> and
  \<^verbatim>\<open>"wheel"\<close> in that order; the default case looks the button up in
  \<^verbatim>\<open>{"left": "left", "right": "right"}\<close> with default \<^verbatim>\<open>"left"\<close>.
\<close>

definition button_mapping :: "string \<rightharpoonup> string" where
  "button_mapping = [''left'' \<mapsto> ''left'', ''right'' \<mapsto> ''right'']"

definition back_nav :: "call list" where
  "back_nav = [GoBack]"

definition forward :: "call list" where
  "forward = [GoForward]"

definition click :: "int \<Rightarrow> int \<Rightarrow> string \<Rightarrow> call list" where
  "click x y button =
     (if button = ''back'' then back_nav
      else if button = ''forward'' then forward
      else if button = ''wheel'' then [MouseWheel x y]
      else (let button_type = (case button_mapping button of Some b \<Rightarrow> b | None \<Rightarrow> ''left'')
            in [MouseClick x y button_type]))"

text \<open>\<^verbatim>\<open>scroll\<close> moves the pointer to \<open>(x, y)\<close>, then scrolls the window.\<close>

definition scroll :: "int \<Rightarrow> int \<Rightarrow> int \<Rightarrow> int \<Rightarrow> call list" where
  "scroll x y scroll_x scroll_y = [MouseMove x y, ScrollBy scroll_x scroll_y]"

text \<open>
  A point of a drag path is a \<^verbatim>\<open>Dict[str, int]\<close>; \<^verbatim>\<open>point["x"]\<close> raises
  \<^verbatim>\<open>KeyError\<close> when the key is missing.  Python evaluates both arguments before the
  call, so a malformed point raises before its move is issued.
\<close>

type_synonym point = "string \<rightharpoonup> int"

definition coords :: "point \<Rightarrow> error + (int \<times> int)" where
  "coords p =
     (case p ''x'' of
        None \<Rightarrow> Inl (KeyError ''x'')
      | Some x \<Rightarrow> (case p ''y'' of None \<Rightarrow> Inl (KeyError ''y'') | Some y \<Rightarrow> Inr (x, y)))"

text \<open>The loop \<^verbatim>\<open>for point in path[1:]: mouse.move(point["x"], point["y"])\<close>.\<close>

fun drag_moves :: "point list \<Rightarrow> call list \<times> error option" where
  "drag_moves [] = ([], None)"
| "drag_moves (p # ps) =
     (case coords p of
        Inl e \<Rightarrow> ([], Some e)
      | Inr (x, y) \<Rightarrow> (case drag_moves ps of (cs, r) \<Rightarrow> (MouseMove x y # cs, r)))"

definition drag :: "point list \<Rightarrow> call list \<times> error option" where
  "drag path =
     (case path of
        [] \<Rightarrow> ([], None)
      | p0 # rest \<Rightarrow>
          (case coords p0 of
             Inl e \<Rightarrow> ([], Some e)
           | Inr (x, y) \<Rightarrow>
               (case drag_moves rest of
                  (cs, Some e) \<Rightarrow> (MouseMove x y # MouseDown # cs, Some e)
                | (cs, None) \<Rightarrow> (MouseMove x y # MouseDown # cs @ [MouseUp], None))))"

text \<open>A point as the action surface documents it: \<^verbatim>\<open>{"x": x, "y": y}\<close>.\<close>

definition pt :: "int \<Rightarrow> int \<Rightarrow> point" where
  "pt x y = [''x'' \<mapsto> x, ''y'' \<mapsto> y]"

section \<open>Keyboard primitive\<close>

text \<open>
  \<^verbatim>\<open>CUA_KEY_TO_PLAYWRIGHT_KEY\<close>, entry by entry.  A Python string is represented by its
  UTF-8 bytes.
\<close>

definition CUA_KEY_TO_PLAYWRIGHT_KEY :: "(string \<times> string) list" where
  "CUA_KEY_TO_PLAYWRIGHT_KEY =
     [(''/'', ''Divide''),
      ([CHR 0x5C], ''Backslash''),
      (''alt'', ''Alt''),
      (''arrowdown'', ''ArrowDown''),
      (''arrowleft'', ''ArrowLeft''),
      (''arrowright'', ''ArrowRight''),
      (''arrowup'', ''ArrowUp''),
      (''backspace'', ''Backspace''),
      (''capslock'', ''CapsLock''),
      (''cmd'', ''Meta''),
      (''ctrl'', ''Control''),
      (''delete'', ''Delete''),
      (''end'', ''End''),
      (''enter'', ''Enter''),
      (''esc'', ''Escape''),
      (''home'', ''Home''),
      (''insert'', ''Insert''),
      (''option'', ''Alt''),
      (''pagedown'', ''PageDown''),
      (''pageup'', ''PageUp''),
      (''shift'', ''Shift''),
      (''space'', '' ''),
      (''super'', ''Meta''),
      (''tab'', ''Tab''),
      (''win'', ''Meta'')]"

text \<open>
  \<^verbatim>\<open>CUA_KEY_TO_PLAYWRIGHT_KEY.get(key.lower(), key)\<close>.  \<^verbatim>\<open>str.lower\<close> is the
  language's own method and follows the Unicode case mapping (it lowers U+212A KELVIN SIGN
  to \<^verbatim>\<open>k\<close>, for instance); it is the parameter \<open>lower\<close> of the methods that call it, so
  that what is proved of them holds of every key name, whatever its characters.
\<close>

definition map_key :: "(string \<Rightarrow> string) \<Rightarrow> string \<Rightarrow> string" where
  "map_key lower key =
     (case map_of CUA_KEY_TO_PLAYWRIGHT_KEY (lower key) of Some k \<Rightarrow> k | None \<Rightarrow> key)"

definition keypress :: "(string \<Rightarrow> string) \<Rightarrow> string list \<Rightarrow> call list" where
  "keypress lower keys =
     (let mapped_keys = map (map_key lower) keys
      in map KeyDown mapped_keys @ map KeyUp (rev mapped_keys))"

section \<open>The session handle\<close>

text \<open>
  The three classes of the source share the fields of \<^verbatim>\<open>BasePlaywrightComputer\<close>
  (\<^verbatim>\<open>_playwright\<close>, \<^verbatim>\<open>_browser\<close>, \<^verbatim>\<open>_page\<close>); the remote ones add
  \<^verbatim>\<open>session\<close> and \<^verbatim>\<open>dimensions\<close>.  A field that a class never assigns is \<open>None\<close>.
  The browser connection is represented by what the code reads from it,
  \<^verbatim>\<open>browser.contexts\<close>: the contexts in order, each with its open pages in order, as the
  engine reports them at the moment of the read.  \<open>routed\<close> is the set of pages on which
  \<^verbatim>\<open>page.route("**/*", handle_route)\<close> has been called, \<open>close_handled\<close> the set of
  pages on which \<^verbatim>\<open>page.on("close", self._handle_page_close)\<close> has been called.
\<close>

datatype kind = BasePlaywrightComputer | BrowserbaseBrowser | LumiTehBrowser

type_synonym browser = "page list list"

record computer =
  kind :: kind
  playwright :: bool
  browser :: "browser option"
  page :: "page option"
  session :: "string option"
  dimensions :: "(int \<times> int) option"
  routed :: "page set"
  close_handled :: "page set"

definition base_init :: computer where
  "base_init =
     \<lparr>kind = BasePlaywrightComputer, playwright = False, browser = None, page = None,
      session = None, dimensions = None, routed = {}, close_handled = {}\<rparr>"

text \<open>
  The constructors of the remote backends; \<^verbatim>\<open>width\<close> and \<^verbatim>\<open>height\<close> default to
  1024 and 768.  The other options (region, proxy, virtual mouse, ad blocker) only reach
  the session bootstrap and are left out.
\<close>

definition default_width :: int where
  "default_width = 1024"

definition default_height :: int where
  "default_height = 768"

definition browserbase_init :: "int \<Rightarrow> int \<Rightarrow> computer" where
  "browserbase_init width height =
     base_init\<lparr>kind := BrowserbaseBrowser, session := None, dimensions := Some (width, height)\<rparr>"

definition lumiteh_init :: "int \<Rightarrow> int \<Rightarrow> computer" where
  "lumiteh_init width height =
     base_init\<lparr>kind := LumiTehBrowser, session := None, dimensions := Some (width, height)\<rparr>"

text \<open>
  \<^verbatim>\<open>get_dimensions\<close>: \<^verbatim>\<open>BasePlaywrightComputer\<close> returns the constant pair;
  \<^verbatim>\<open>BrowserbaseBrowser\<close> overrides it with \<^verbatim>\<open>self.dimensions\<close>; \<^verbatim>\<open>LumiTehBrowser\<close>
  defines no override and inherits the base method.
\<close>

definition base_get_dimensions :: "computer \<Rightarrow> error + (int \<times> int)" where
  "base_get_dimensions c = Inr (1280, 1080)"

definition browserbase_get_dimensions :: "computer \<Rightarrow> error + (int \<times> int)" where
  "browserbase_get_dimensions c =
     (case dimensions c of None \<Rightarrow> Inl AttributeError | Some d \<Rightarrow> Inr d)"

definition get_dimensions :: "computer \<Rightarrow> error + (int \<times> int)" where
  "get_dimensions c =
     (case kind c of
        BasePlaywrightComputer \<Rightarrow> base_get_dimensions c
      | BrowserbaseBrowser \<Rightarrow> browserbase_get_dimensions c
      | LumiTehBrowser \<Rightarrow> base_get_dimensions c)"

subsection \<open>Entering the session and request interception\<close>

text \<open>
  \<^verbatim>\<open>check_blocklisted_url\<close> comes from a module outside the sources at hand; it is a
  parameter \<open>blocklisted\<close>.  \<^verbatim>\<open>handle_route\<close> is the closure built in \<^verbatim>\<open>__enter__\<close>.
\<close>

definition handle_route :: "(string \<Rightarrow> bool) \<Rightarrow> string \<Rightarrow> call list" where
  "handle_route blocklisted url =
     (if blocklisted url
      then [Print (''Flagging blocked domain: '' @ url), RouteAbort]
      else [RouteContinue])"

text \<open>
  \<^verbatim>\<open>__enter__\<close>, for a bootstrap that returned the connection \<open>b\<close> and the page \<open>p\<close>
  (and, for the remote backends, created the session \<open>sid\<close> and attached the close handler
  to \<open>p\<close>): the route is installed on that page, once.
\<close>

definition enter :: "computer \<Rightarrow> browser \<Rightarrow> page \<Rightarrow> string option \<Rightarrow> computer" where
  "enter c b p sid =
     c\<lparr>playwright := True, browser := Some b, page := Some p, session := sid,
       routed := insert p (routed c),
       close_handled := (if kind c = BasePlaywrightComputer then close_handled c
                         else insert p (close_handled c))\<rparr>"

text \<open>
  A route registered with \<^verbatim>\<open>page.route\<close> is consulted for the requests of that page only;
  a request of a page without a route is not presented to the orchestrator and proceeds.
  The function gives the calls the orchestrator makes for a request of the current page.
\<close>

definition current_page_request :: "(string \<Rightarrow> bool) \<Rightarrow> computer \<Rightarrow> string \<Rightarrow> call list" where
  "current_page_request blocklisted c url =
     (case page c of
        None \<Rightarrow> []
      | Some p \<Rightarrow> if p \<in> routed c then handle_route blocklisted url else [])"

subsection \<open>Page tracking\<close>

text \<open>
  \<^verbatim>\<open>_handle_new_page\<close> and \<^verbatim>\<open>_handle_page_close\<close> have the same text in
  \<^verbatim>\<open>BrowserbaseBrowser\<close> and \<^verbatim>\<open>LumiTehBrowser\<close>.  A handler returns what it printed
  and the handle after it, or the exception it raised.
\<close>

definition handle_new_page :: "computer \<Rightarrow> page \<Rightarrow> call list \<times> computer" where
  "handle_new_page c p =
     ([Print ''New page created''],
      c\<lparr>page := Some p, close_handled := insert p (close_handled c)\<rparr>)"

definition all_closed_warning :: string where
  "all_closed_warning = ''Warning: All pages have been closed.''"

definition handle_page_close :: "computer \<Rightarrow> page \<Rightarrow> call list \<times> (error + computer)" where
  "handle_page_close c p =
     (if page c = Some p then
        (case browser c of
           None \<Rightarrow> ([Print ''Page closed''], Inl AttributeError)
         | Some contexts \<Rightarrow>
             (case contexts of
                [] \<Rightarrow> ([Print ''Page closed''], Inl IndexError)
              | pages # _ \<Rightarrow>
                  (Print ''Page closed'' # (if pages = [] then [Print all_closed_warning] else []),
                   Inr (c\<lparr>page := (if pages \<noteq> [] then Some (last pages) else None)\<rparr>))))
      else ([Print ''Page closed''], Inr c))"

subsection \<open>Teardown\<close>

text \<open>
  \<^verbatim>\<open>__exit__\<close> is a straight sequence of guarded engine calls with no exception
  handler.  \<open>raises\<close> says which engine calls fail, and with what message; a call that
  fails is in the trace (it was attempted) and ends the sequence.
\<close>

type_synonym run = "call list \<times> error option"

definition skip :: run where
  "skip = ([], None)"

definition engine_call :: "(call \<Rightarrow> string option) \<Rightarrow> call \<Rightarrow> run" where
  "engine_call raises c = ([c], map_option PlaywrightError (raises c))"

definition say :: "string \<Rightarrow> run" where
  "say line = ([Print line], None)"

definition seq :: "run \<Rightarrow> run \<Rightarrow> run" where
  "seq a b =
     (case a of
        (cs, Some e) \<Rightarrow> (cs, Some e)
      | (cs, None) \<Rightarrow> (case b of (ds, r) \<Rightarrow> (cs @ ds, r)))"

definition base_exit :: "(call \<Rightarrow> string option) \<Rightarrow> computer \<Rightarrow> run" where
  "base_exit raises c =
     seq (if browser c \<noteq> None then engine_call raises BrowserClose else skip)
         (if playwright c then engine_call raises PlaywrightStop else skip)"

definition replay_url :: "kind \<Rightarrow> string" where
  "replay_url k =
     (if k = BrowserbaseBrowser then ''https://browserbase.com/sessions/''
      else ''https://lumiteh.com/sessions/'')"

definition remote_exit :: "(call \<Rightarrow> string option) \<Rightarrow> computer \<Rightarrow> run" where
  "remote_exit raises c =
     seq (case page c of Some p \<Rightarrow> engine_call raises (PageClose p) | None \<Rightarrow> skip)
    (seq (if browser c \<noteq> None then engine_call raises BrowserClose else skip)
    (seq (if playwright c then engine_call raises PlaywrightStop else skip)
         (case session c of
            Some sid \<Rightarrow> say (''Session completed. View replay at '' @ replay_url (kind c) @ sid)
          | None \<Rightarrow> skip)))"

definition exit_session :: "(call \<Rightarrow> string option) \<Rightarrow> computer \<Rightarrow> run" where
  "exit_session raises c =
     (case kind c of
        BasePlaywrightComputer \<Rightarrow> base_exit raises c
      | BrowserbaseBrowser \<Rightarrow> remote_exit raises c
      | LumiTehBrowser \<Rightarrow> remote_exit raises c)"

subsection \<open>Screenshots\<close>

text \<open>
  The engine's answers are parameters.  An engine call fails by raising the engine's error
  class (\<^verbatim>\<open>playwright.sync_api.Error\<close>, imported as \<^verbatim>\<open>PlaywrightError\<close>): \<open>Inl msg\<close>.
  \<^verbatim>\<open>base64.b64encode(...).decode("utf-8")\<close> is the library function \<open>b64encode\<close>.
\<close>

type_synonym cdp_session = nat
type_synonym bytes = "nat list"

record engine =
  page_screenshot :: "page \<Rightarrow> string + bytes"
  new_cdp_session :: "page \<Rightarrow> string + cdp_session"
  cdp_send :: "cdp_session \<Rightarrow> string + (string \<rightharpoonup> string)"
  b64encode :: "bytes \<Rightarrow> string"

definition base_screenshot :: "engine \<Rightarrow> computer \<Rightarrow> call list \<times> (error + string)" where
  "base_screenshot env c =
     (case page c of
        None \<Rightarrow> ([], Inl AttributeError)
      | Some p \<Rightarrow>
          (case page_screenshot env p of
             Inl msg \<Rightarrow> ([], Inl (PlaywrightError msg))
           | Inr png_bytes \<Rightarrow> ([], Inr (b64encode env png_bytes))))"

text \<open>The body of the \<^verbatim>\<open>try\<close> block of the remote backends' \<^verbatim>\<open>screenshot\<close>.\<close>

definition cdp_capture :: "engine \<Rightarrow> computer \<Rightarrow> error + string" where
  "cdp_capture env c =
     (case page c of
        None \<Rightarrow> Inl AttributeError
      | Some p \<Rightarrow>
          (case new_cdp_session env p of
             Inl msg \<Rightarrow> Inl (PlaywrightError msg)
           | Inr cdp \<Rightarrow>
               (case cdp_send env cdp of
                  Inl msg \<Rightarrow> Inl (PlaywrightError msg)
                | Inr result \<Rightarrow>
                    (case result ''data'' of
                       None \<Rightarrow> Inl (KeyError ''data'')
                     | Some d \<Rightarrow> Inr d))))"

definition fallback_message :: "kind \<Rightarrow> string \<Rightarrow> string" where
  "fallback_message k msg =
     (if k = BrowserbaseBrowser
      then ''CDP screenshot failed, falling back to default screenshot: '' @ msg
      else ''CDP screenshot failed, falling back to standard screenshot: '' @ msg)"

text \<open>\<^verbatim>\<open>except PlaywrightError\<close> catches the engine's errors and nothing else.\<close>

definition remote_screenshot :: "engine \<Rightarrow> computer \<Rightarrow> call list \<times> (error + string)" where
  "remote_screenshot env c =
     (case cdp_capture env c of
        Inr d \<Rightarrow> ([], Inr d)
      | Inl (PlaywrightError msg) \<Rightarrow>
          (case base_screenshot env c of
             (cs, r) \<Rightarrow> (Print (fallback_message (kind c) msg) # cs, r))
      | Inl e \<Rightarrow> ([], Inl e))"

definition screenshot :: "engine \<Rightarrow> computer \<Rightarrow> call list \<times> (error + string)" where
  "screenshot env c =
     (case kind c of
        BasePlaywrightComputer \<Rightarrow> base_screenshot env c
      | BrowserbaseBrowser \<Rightarrow> remote_screenshot env c
      | LumiTehBrowser \<Rightarrow> remote_screenshot env c)"

subsection \<open>Typed actions\<close>

text \<open>
  An action is a \<^verbatim>\<open>BrowserAction\<close>, an \<^verbatim>\<open>InteractionAction\<close> with its
  \<^verbatim>\<open>selectors\<close> attribute (possibly \<^verbatim>\<open>None\<close>), or an object of another class.
\<close>

datatype action =
    BrowserAction string
  | InteractionAction string "selector list option"
  | OtherAction

text \<open>
  Modelled from the spec: \<^verbatim>\<open>locate_element\<close> of the module \<^verbatim>\<open>bua.computers.actions\<close>
  is not among the sources.  The specification's Element Locator takes an ordered list of
  selector descriptors, tries each in order against the page, returns the first
  resolvable element handle, and fails with a not-found error if all fail.  \<open>resolve\<close> is
  the page's answer for one selector.
\<close>

fun locate_element :: "(selector \<Rightarrow> element option) \<Rightarrow> selector list \<Rightarrow> error + element" where
  "locate_element resolve [] = Inl ElementResolutionError"
| "locate_element resolve (s # ss) =
     (case resolve s of Some el \<Rightarrow> Inr el | None \<Rightarrow> locate_element resolve ss)"

text \<open>
  \<^verbatim>\<open>execute_action\<close>.  In the interaction branch the assertion comes first, then the
  locator runs on \<^verbatim>\<open>self._page\<close>, then \<^verbatim>\<open>self._page.context\<close> is read (an
  \<^verbatim>\<open>AttributeError\<close> without a current page) and the verb is executed.
\<close>

definition execute_action ::
    "(page option \<Rightarrow> selector \<Rightarrow> element option) \<Rightarrow> computer \<Rightarrow> action \<Rightarrow> run" where
  "execute_action resolve c a =
     (case a of
        BrowserAction verb \<Rightarrow>
          (case page c of
             None \<Rightarrow> ([], Some AttributeError)
           | Some p \<Rightarrow> ([ExecuteBrowser verb, ShortWait], None))
      | InteractionAction verb selectors \<Rightarrow>
          (case selectors of
             None \<Rightarrow> ([], Some AssertionError)
           | Some ss \<Rightarrow>
               (case locate_element (resolve (page c)) ss of
                  Inl e \<Rightarrow> ([], Some e)
                | Inr locator \<Rightarrow>
                    (case page c of
                       None \<Rightarrow> ([], Some AttributeError)
                     | Some p \<Rightarrow> ([ExecuteInteraction verb locator, ShortWait], None))))
      | OtherAction \<Rightarrow> ([], Some ValueError))"

section \<open>Reference notions for the properties\<close>

text \<open>A well-formed point has both coordinates; \<open>move_to\<close> is the move to it.\<close>

definition has_xy :: "point \<Rightarrow> bool" where
  "has_xy p = (p ''x'' \<noteq> None \<and> p ''y'' \<noteq> None)"

definition move_to :: "point \<Rightarrow> call" where
  "move_to p = MouseMove (the (p ''x'')) (the (p ''y''))"

text \<open>
  On a string of ASCII characters \<^verbatim>\<open>str.lower\<close> replaces the letters \<^verbatim>\<open>A\<close> to \<^verbatim>\<open>Z\<close>
  by \<^verbatim>\<open>a\<close> to \<^verbatim>\<open>z\<close> and keeps every other character: \<open>ascii_lower\<close>.
\<close>

definition is_ascii :: "string \<Rightarrow> bool" where
  "is_ascii s = list_all (\<lambda>c. (of_char c :: nat) < 128) s"

definition ascii_lower_char :: "char \<Rightarrow> char" where
  "ascii_lower_char c =
     (let n = (of_char c :: nat) in if 65 \<le> n \<and> n \<le> 90 then char_of (n + 32) else c)"

definition ascii_lower :: "string \<Rightarrow> string" where
  "ascii_lower s = map ascii_lower_char s"

text \<open>
  The engine's pointer, as far as the calls of the orchestrator go: \<^verbatim>\<open>mouse.move(x, y)\<close>
  and \<^verbatim>\<open>mouse.click(x, y)\<close> put the pointer at \<open>(x, y)\<close>;
  \<^verbatim>\<open>mouse.wheel(delta_x, delta_y)\<close> dispatches a wheel event where the pointer is, which
  scrolls by the two deltas.  \<open>wheels\<close> lists the wheel events dispatched, each with the
  pointer position it was dispatched at and its deltas.
\<close>

record pointer =
  position :: "int \<times> int"
  wheels :: "((int \<times> int) \<times> (int \<times> int)) list"

fun pointer_call :: "pointer \<Rightarrow> call \<Rightarrow> pointer" where
  "pointer_call m (MouseMove x y) = m\<lparr>position := (x, y)\<rparr>"
| "pointer_call m (MouseClick x y b) = m\<lparr>position := (x, y)\<rparr>"
| "pointer_call m (MouseWheel dx dy) = m\<lparr>wheels := wheels m @ [(position m, (dx, dy))]\<rparr>"
| "pointer_call m _ = m"

definition pointer_after :: "call list \<Rightarrow> pointer \<Rightarrow> pointer" where
  "pointer_after cs m = foldl pointer_call m cs"

text \<open>
  The teardown steps of a handle, in the order named by the specification: the current
  page is closed (remote backends, when there is one), the connection is closed (when
  there is one), the automation engine is stopped (when it was started).  \<open>exit_message\<close>
  is the replay line the remote backends print last.
\<close>

definition exit_steps :: "computer \<Rightarrow> call list" where
  "exit_steps c =
     (if kind c = BasePlaywrightComputer then []
      else (case page c of Some p \<Rightarrow> [PageClose p] | None \<Rightarrow> []))
     @ (if browser c \<noteq> None then [BrowserClose] else [])
     @ (if playwright c then [PlaywrightStop] else [])"

definition exit_message :: "computer \<Rightarrow> call list" where
  "exit_message c =
     (if kind c = BasePlaywrightComputer then []
      else (case session c of
              Some sid \<Rightarrow>
                [Print (''Session completed. View replay at '' @ replay_url (kind c) @ sid)]
            | None \<Rightarrow> []))"

text \<open>Running a list of engine calls one after the other, stopping at the first that raises.\<close>

fun run_steps :: "(call \<Rightarrow> string option) \<Rightarrow> call list \<Rightarrow> run" where
  "run_steps raises [] = skip"
| "run_steps raises (s # ss) = seq (engine_call raises s) (run_steps raises ss)"

section \<open>Concrete sessions and engines\<close>

text \<open>
  A Browserbase session with current page 7 while the first context still holds the pages
  3 and 5; a LumiTeh session whose first context has no page left; a session whose
  initial page 0 opened a second tab 1.
\<close>

definition tabbed_session :: computer where
  "tabbed_session =
     (browserbase_init 1024 768)
       \<lparr>playwright := True, browser := Some [[3, 5]], page := Some 7, session := Some ''s1''\<rparr>"

definition last_tab_session :: computer where
  "last_tab_session =
     (lumiteh_init 1024 768)
       \<lparr>playwright := True, browser := Some [[]], page := Some 7, session := Some ''s1''\<rparr>"

definition popup_session :: computer where
  "popup_session =
     snd (handle_new_page (enter (browserbase_init 1024 768) [[0]] 0 (Some ''s1'')) 1)"

definition pointer_at_origin :: pointer where
  "pointer_at_origin = \<lparr>position = (0, 0), wheels = []\<rparr>"

text \<open>The name \<^verbatim>\<open>BAC\<close>, U+212A, \<^verbatim>\<open>SPACE\<close>.\<close>

definition kelvin_backspace :: string where
  "kelvin_backspace = ''BAC'' @ [CHR 0xE2, CHR 0x84, CHR 0xAA] @ ''SPACE''"

definition failing_page_close :: "call \<Rightarrow> string option" where
  "failing_page_close = [PageClose 7 \<mapsto> ''Target closed'']"

definition no_failure :: "call \<Rightarrow> string option" where
  "no_failure = Map.empty"

definition ads_blocklist :: "string \<Rightarrow> bool" where
  "ads_blocklist url = (take 24 url = ''https://ads.example.com/'')"

definition resolve_all :: "page option \<Rightarrow> selector \<Rightarrow> element option" where
  "resolve_all p s = Some 0"

definition failing_cdp_engine :: engine where
  "failing_cdp_engine =
     \<lparr>page_screenshot = (\<lambda>p. Inr [137, 80, 78, 71]),
      new_cdp_session = (\<lambda>p. Inr 0),
      cdp_send = (\<lambda>s. Inl ''Protocol error''),
      b64encode = (\<lambda>bs. ''iVBORw=='')\<rparr>"

section \<open>Pointer and keyboard primitives\<close>

text \<open>
  With button \<^verbatim>\<open>"back"\<close> or \<^verbatim>\<open>"forward"\<close>, \<^verbatim>\<open>click\<close> issues the history
  navigation and no pointer call; with any button other than these, \<^verbatim>\<open>"wheel"\<close> and
  \<^verbatim>\<open>"right"\<close>, it issues one left click at \<open>(x, y)\<close>.
\<close>

lemma click_other_buttons:
  "click x y ''back'' = [GoBack] \<and>
   click x y ''forward'' = [GoForward] \<and>
   (button \<notin> {''back'', ''forward'', ''wheel'', ''right''} \<longrightarrow>
      click x y button = [MouseClick x y ''left''])"
  by (auto simp add: click_def back_nav_def forward_def button_mapping_def)

lemma click_wheel: "click x y ''wheel'' = [MouseWheel x y]"
  by (simp add: click_def)

text \<open>
  C2.  With button \<^verbatim>\<open>"wheel"\<close>, \<^verbatim>\<open>click(100, 200, "wheel")\<close> issues no click, but it
  is not a wheel gesture at \<open>(100, 200)\<close> either: the coordinates are handed to
  \<^verbatim>\<open>mouse.wheel\<close> as its scroll deltas and the pointer is not moved, so with the pointer
  at the origin the one wheel event is dispatched at the origin and scrolls by
  \<open>(100, 200)\<close>.  \<^verbatim>\<open>scroll(100, 200, 0, 300)\<close> does move the pointer to \<open>(100, 200)\<close>
  first.
\<close>

theorem click_wheel_scrolls_by_coordinates:
  "click 100 200 ''wheel'' = [MouseWheel 100 200] \<and>
   MouseMove 100 200 \<notin> set (click 100 200 ''wheel'') \<and>
   wheels (pointer_after (click 100 200 ''wheel'') pointer_at_origin) = [((0, 0), (100, 200))] \<and>
   position (pointer_after (click 100 200 ''wheel'') pointer_at_origin) = (0, 0) \<and>
   scroll 100 200 0 300 = [MouseMove 100 200, ScrollBy 0 300] \<and>
   position (pointer_after (scroll 100 200 0 300) pointer_at_origin) = (100, 200)"
  by (simp add: click_def scroll_def pointer_after_def pointer_at_origin_def)

lemma click_right: "click x y ''right'' = [MouseClick x y ''right'']"
  by (simp add: click_def button_mapping_def)

subsection \<open>Key chords\<close>

lemma distinct_keys: "distinct (map fst CUA_KEY_TO_PLAYWRIGHT_KEY)"
  by (simp add: CUA_KEY_TO_PLAYWRIGHT_KEY_def)

lemma map_key_present:
  "(lower k, v) \<in> set CUA_KEY_TO_PLAYWRIGHT_KEY \<Longrightarrow> map_key lower k = v"
  using map_of_is_SomeI [OF distinct_keys] by (simp add: map_key_def)

lemma map_key_absent:
  assumes "lower k \<notin> fst ` set CUA_KEY_TO_PLAYWRIGHT_KEY"
  shows "map_key lower k = k"
proof -
  from assms have "map_of CUA_KEY_TO_PLAYWRIGHT_KEY (lower k) = None"
    by (simp add: map_of_eq_None_iff)
  then show ?thesis
    by (simp add: map_key_def)
qed

lemma map_key_ascii:
  assumes "\<forall>s. is_ascii s \<longrightarrow> lower s = ascii_lower s"
    and "is_ascii k" and "(ascii_lower k, v) \<in> set CUA_KEY_TO_PLAYWRIGHT_KEY"
  shows "map_key lower k = v"
proof -
  from assms(1,2) have "lower k = ascii_lower k"
    by simp
  with assms(3) show ?thesis
    by (simp add: map_key_present)
qed

lemma keypress_down:
  "i < length keys \<Longrightarrow> keypress lower keys ! i = KeyDown (map_key lower (keys ! i))"
  by (simp add: keypress_def nth_append)

lemma keypress_up:
  "i < length keys \<Longrightarrow>
   keypress lower keys ! (length keys + i) =
     KeyUp (map_key lower (keys ! (length keys - Suc i)))"
  by (simp add: keypress_def nth_append rev_nth)

lemma ascii_ctrl: "is_ascii ''CTRL'' \<and> ascii_lower ''CTRL'' = ''ctrl''"
  by code_simp

lemma ascii_lower_x: "ascii_lower ''x'' = ''x''"
  by code_simp

text \<open>
  A name with a non-ASCII character that \<^verbatim>\<open>str.lower\<close> maps to a key of the table is
  pressed as that entry's value.
\<close>

lemma map_key_kelvin:
  "lower kelvin_backspace = ''backspace'' \<Longrightarrow> map_key lower kelvin_backspace = ''Backspace''"
  by (rule map_key_present) (simp add: CUA_KEY_TO_PLAYWRIGHT_KEY_def)

text \<open>
  C6.  \<^verbatim>\<open>keypress(keys)\<close> issues \<open>2 * length keys\<close> keyboard calls: the \<open>i\<close>-th is the
  key-down of the \<open>i\<close>-th mapped key, and the \<open>i\<close>-th after those is the key-up of the
  \<open>i\<close>-th mapped key counted from the end, duplicates included.  A name whose lower-cased
  form is a key of the table is mapped to that entry's value, whatever the case of its
  letters; any other name is passed on unchanged.  In particular, since \<^verbatim>\<open>str.lower\<close> is
  \<open>ascii_lower\<close> on ASCII names, an ASCII name that differs from a key of the table by
  the case of its letters only is mapped to that entry's value.
\<close>

theorem keypress_chord:
  "length (keypress lower keys) = 2 * length keys \<and>
   (\<forall>i<length keys.
      keypress lower keys ! i = KeyDown (map_key lower (keys ! i)) \<and>
      keypress lower keys ! (length keys + i) =
        KeyUp (map_key lower (keys ! (length keys - Suc i)))) \<and>
   (\<forall>k v. (lower k, v) \<in> set CUA_KEY_TO_PLAYWRIGHT_KEY \<longrightarrow> map_key lower k = v) \<and>
   (\<forall>k. lower k \<notin> fst ` set CUA_KEY_TO_PLAYWRIGHT_KEY \<longrightarrow> map_key lower k = k) \<and>
   ((\<forall>s. is_ascii s \<longrightarrow> lower s = ascii_lower s) \<longrightarrow>
      (\<forall>k v. is_ascii k \<and> (ascii_lower k, v) \<in> set CUA_KEY_TO_PLAYWRIGHT_KEY \<longrightarrow>
         map_key lower k = v))"
proof -
  have "length (keypress lower keys) = 2 * length keys"
    by (simp add: keypress_def)
  moreover have "\<forall>i<length keys.
      keypress lower keys ! i = KeyDown (map_key lower (keys ! i)) \<and>
      keypress lower keys ! (length keys + i) =
        KeyUp (map_key lower (keys ! (length keys - Suc i)))"
    by (simp add: keypress_down keypress_up)
  moreover have "\<forall>k v. (lower k, v) \<in> set CUA_KEY_TO_PLAYWRIGHT_KEY \<longrightarrow> map_key lower k = v"
    by (simp add: map_key_present)
  moreover have "\<forall>k. lower k \<notin> fst ` set CUA_KEY_TO_PLAYWRIGHT_KEY \<longrightarrow> map_key lower k = k"
    using map_key_absent by blast
  moreover have "(\<forall>s. is_ascii s \<longrightarrow> lower s = ascii_lower s) \<longrightarrow>
      (\<forall>k v. is_ascii k \<and> (ascii_lower k, v) \<in> set CUA_KEY_TO_PLAYWRIGHT_KEY \<longrightarrow>
         map_key lower k = v)"
    using map_key_ascii by blast
  ultimately show ?thesis
    by blast
qed

theorem keypress_chord_witness:
  "keypress ascii_lower [''CTRL'', ''x'', ''CTRL''] ! 0 = KeyDown ''Control'' \<and>
   keypress ascii_lower [''CTRL'', ''x'', ''CTRL''] ! 1 = KeyDown ''x'' \<and>
   keypress ascii_lower [''CTRL'', ''x'', ''CTRL''] ! 2 = KeyDown ''Control'' \<and>
   keypress ascii_lower [''CTRL'', ''x'', ''CTRL''] ! 3 = KeyUp ''Control'' \<and>
   keypress ascii_lower [''CTRL'', ''x'', ''CTRL''] ! 4 = KeyUp ''x'' \<and>
   keypress ascii_lower [''CTRL'', ''x'', ''CTRL''] ! 5 = KeyUp ''Control''"
proof -
  let ?keys = "[''CTRL'', ''x'', ''CTRL'']"
  note chord = keypress_chord [of ascii_lower ?keys]
  have same: "\<forall>s. is_ascii s \<longrightarrow> ascii_lower s = ascii_lower s"
    by simp
  have ctrl: "map_key ascii_lower ''CTRL'' = ''Control''"
  proof -
    have "is_ascii ''CTRL'' \<and> (ascii_lower ''CTRL'', ''Control'') \<in> set CUA_KEY_TO_PLAYWRIGHT_KEY"
      by (simp add: ascii_ctrl CUA_KEY_TO_PLAYWRIGHT_KEY_def)
    with chord same show ?thesis by blast
  qed
  have x: "map_key ascii_lower ''x'' = ''x''"
  proof -
    have "ascii_lower ''x'' \<notin> fst ` set CUA_KEY_TO_PLAYWRIGHT_KEY"
      by (simp add: ascii_lower_x CUA_KEY_TO_PLAYWRIGHT_KEY_def)
    with chord show ?thesis by blast
  qed
  have idx: "keypress ascii_lower ?keys ! i = KeyDown (map_key ascii_lower (?keys ! i)) \<and>
      keypress ascii_lower ?keys ! (length ?keys + i) =
        KeyUp (map_key ascii_lower (?keys ! (length ?keys - Suc i)))"
    if "i < length ?keys" for i
    using chord that by blast
  have "keypress ascii_lower ?keys ! 0 = KeyDown (map_key ascii_lower ''CTRL'') \<and>
      keypress ascii_lower ?keys ! 3 = KeyUp (map_key ascii_lower ''CTRL'')"
    using idx [of 0] by (simp add: eval_nat_numeral)
  moreover
  have "keypress ascii_lower ?keys ! 1 = KeyDown (map_key ascii_lower ''x'') \<and>
      keypress ascii_lower ?keys ! 4 = KeyUp (map_key ascii_lower ''x'')"
    using idx [of 1] by (simp add: eval_nat_numeral)
  moreover
  have "keypress ascii_lower ?keys ! 2 = KeyDown (map_key ascii_lower ''CTRL'') \<and>
      keypress ascii_lower ?keys ! 5 = KeyUp (map_key ascii_lower ''CTRL'')"
    using idx [of 2] by (simp add: eval_nat_numeral)
  ultimately show ?thesis
    by (simp add: ctrl x)
qed

subsection \<open>Drag gestures\<close>

lemma drag_moves_has_xy:
  "\<forall>p\<in>set ps. has_xy p \<Longrightarrow> drag_moves ps = (map move_to ps, None)"
  by (induction ps) (auto simp add: coords_def has_xy_def move_to_def)

lemma count_moves: "c = MouseDown \<or> c = MouseUp \<Longrightarrow> count_list (map move_to ps) c = 0"
  by (induction ps) (auto simp add: move_to_def)

text \<open>
  C7.  \<^verbatim>\<open>drag([])\<close> issues no call.  For a non-empty path of well-formed points,
  \<^verbatim>\<open>drag\<close> issues the move to the first point, one button-down, the moves to the
  remaining points in order and one button-up, and nothing else: the trace holds exactly
  one button-down and one button-up.
\<close>

theorem drag_single_gesture:
  "drag [] = ([], None) \<and>
   ((\<forall>p\<in>set (p0 # ps). has_xy p) \<longrightarrow>
      drag (p0 # ps) = (move_to p0 # MouseDown # map move_to ps @ [MouseUp], None) \<and>
      count_list (fst (drag (p0 # ps))) MouseDown = 1 \<and>
      count_list (fst (drag (p0 # ps))) MouseUp = 1)"
proof -
  have empty: "drag [] = ([], None)"
    by (simp add: drag_def)
  have gesture: "drag (p0 # ps) = (move_to p0 # MouseDown # map move_to ps @ [MouseUp], None)"
    if "\<forall>p\<in>set (p0 # ps). has_xy p"
  proof -
    from that have "coords p0 = Inr (the (p0 ''x''), the (p0 ''y''))"
      by (auto simp add: coords_def has_xy_def)
    moreover from that have "drag_moves ps = (map move_to ps, None)"
      by (simp add: drag_moves_has_xy)
    ultimately show ?thesis
      by (simp add: drag_def move_to_def)
  qed
  have "count_list (move_to p0 # MouseDown # map move_to ps @ [MouseUp]) MouseDown = 1"
       "count_list (move_to p0 # MouseDown # map move_to ps @ [MouseUp]) MouseUp = 1"
    by (simp_all add: count_moves move_to_def)
  with empty gesture show ?thesis
    by simp
qed

theorem drag_single_gesture_witness:
  "drag [pt 0 0, pt 5 5, pt 9 3] =
     ([MouseMove 0 0, MouseDown, MouseMove 5 5, MouseMove 9 3, MouseUp], None)"
proof -
  have "\<forall>p\<in>set (pt 0 0 # [pt 5 5, pt 9 3]). has_xy p"
    by (simp add: has_xy_def pt_def)
  with drag_single_gesture [of "pt 0 0" "[pt 5 5, pt 9 3]"]
  have "drag [pt 0 0, pt 5 5, pt 9 3] =
      (move_to (pt 0 0) # MouseDown # map move_to [pt 5 5, pt 9 3] @ [MouseUp], None)"
    by blast
  then show ?thesis
    by (simp add: move_to_def pt_def)
qed

text \<open>A point without \<^verbatim>\<open>"y"\<close> in the middle of a path leaves the button down.\<close>

lemma drag_malformed_point:
  "drag [pt 0 0, [''x'' \<mapsto> 5], pt 9 3] = ([MouseMove 0 0, MouseDown], Some (KeyError ''y''))"
  by (simp add: drag_def coords_def pt_def)

section \<open>Typed actions\<close>

text \<open>With a selector that resolves, the verb runs against the located element.\<close>

lemma execute_action_located:
  "execute_action resolve_all tabbed_session (InteractionAction ''click'' (Some [''#go'']))
     = ([ExecuteInteraction ''click'' 0, ShortWait], None)"
  by (simp add: execute_action_def resolve_all_def tabbed_session_def)

text \<open>
  C1.  \<^verbatim>\<open>execute_action\<close> on an \<^verbatim>\<open>InteractionAction\<close> whose selectors are missing
  (\<^verbatim>\<open>None\<close>) or empty fails before any engine call is made: with the assertion error
  when they are missing, with the locator's not-found error when the list is empty.  No
  verb is executed.
\<close>

theorem execute_action_requires_selectors:
  "selectors = None \<or> selectors = Some [] \<Longrightarrow>
   execute_action resolve c (InteractionAction verb selectors) =
     ([], Some (if selectors = None then AssertionError else ElementResolutionError))"
  by (auto simp add: execute_action_def)

theorem execute_action_requires_selectors_witness:
  "(Some [] = (None :: selector list option) \<or> Some [] = Some ([] :: selector list)) \<and>
   execute_action resolve_all tabbed_session (InteractionAction ''click'' (Some [])) =
     ([], Some ElementResolutionError)"
  using execute_action_requires_selectors [of "Some []" resolve_all tabbed_session "''click''"]
  by simp

section \<open>Page tracking\<close>

text \<open>
  C3.  When the page that closes is the current page, the current-page reference becomes
  the last page of the connection's first context, and nothing but the close notice is
  printed; when that context has no page, the reference is cleared and the warning is
  printed.  No other field of the handle changes.
\<close>

theorem handle_page_close_current:
  "page c = Some p \<Longrightarrow> browser c = Some (pages # rest) \<Longrightarrow>
   (pages \<noteq> [] \<longrightarrow>
      handle_page_close c p = ([Print ''Page closed''], Inr (c\<lparr>page := Some (last pages)\<rparr>))) \<and>
   (pages = [] \<longrightarrow>
      handle_page_close c p =
        ([Print ''Page closed'', Print all_closed_warning], Inr (c\<lparr>page := None\<rparr>)))"
  by (simp add: handle_page_close_def)

theorem handle_page_close_current_witness:
  "handle_page_close tabbed_session 7 =
     ([Print ''Page closed''], Inr (tabbed_session\<lparr>page := Some 5\<rparr>)) \<and>
   handle_page_close last_tab_session 7 =
     ([Print ''Page closed'', Print all_closed_warning], Inr (last_tab_session\<lparr>page := None\<rparr>))"
  using handle_page_close_current [of tabbed_session 7 "[3, 5]" "[]"]
        handle_page_close_current [of last_tab_session 7 "[]" "[]"]
  by (simp add: tabbed_session_def last_tab_session_def)

text \<open>
  C10.  When the page that closes is not the current page, the handler prints the close
  notice and returns the handle as it was: the current page is not reassigned and no
  warning is printed.
\<close>

theorem handle_page_close_background:
  "page c \<noteq> Some p \<Longrightarrow> handle_page_close c p = ([Print ''Page closed''], Inr c)"
  by (simp add: handle_page_close_def)

theorem handle_page_close_background_witness:
  "page tabbed_session \<noteq> Some 3 \<and>
   handle_page_close tabbed_session 3 = ([Print ''Page closed''], Inr tabbed_session)"
proof -
  have "page tabbed_session \<noteq> Some 3"
    by (simp add: tabbed_session_def)
  then show ?thesis
    using handle_page_close_background [of tabbed_session 3] by simp
qed

section \<open>Teardown\<close>

lemma seq_skip_left: "seq skip b = b"
  by (cases b) (simp add: seq_def skip_def)

lemma seq_skip_right: "seq a skip = a"
  by (cases a) (auto simp add: seq_def skip_def split: option.splits)

lemma seq_assoc: "seq (seq a b) d = seq a (seq b d)"
  by (cases a; cases b; cases d) (auto simp add: seq_def split: option.splits)

lemma run_steps_append:
  "run_steps raises (xs @ ys) = seq (run_steps raises xs) (run_steps raises ys)"
  by (induction xs) (simp_all add: seq_skip_left seq_assoc)

lemma run_steps_ok: "\<forall>x\<in>set ss. raises x = None \<Longrightarrow> run_steps raises ss = (ss, None)"
  by (induction ss) (simp_all add: skip_def seq_def engine_call_def)

lemma run_steps_fail:
  assumes "\<forall>x\<in>set pre. raises x = None" and "raises s = Some msg"
  shows "run_steps raises (pre @ s # post) = (pre @ [s], Some (PlaywrightError msg))"
proof -
  have "run_steps raises (s # post) = ([s], Some (PlaywrightError msg))"
    using assms(2) by (simp add: seq_def engine_call_def)
  then show ?thesis
    using run_steps_ok [OF assms(1)] by (simp add: run_steps_append seq_def)
qed

text \<open>Every \<^verbatim>\<open>__exit__\<close> of the source runs its steps in the order of \<open>exit_steps\<close>.\<close>

lemma exit_session_steps:
  "exit_session raises c = seq (run_steps raises (exit_steps c)) (exit_message c, None)"
  by (cases "kind c"; cases "page c"; cases "browser c"; cases "playwright c"; cases "session c")
     (simp_all add: exit_session_def base_exit_def remote_exit_def exit_steps_def exit_message_def
        seq_skip_left seq_skip_right seq_assoc say_def flip: skip_def)

lemma exit_steps_tabbed: "exit_steps tabbed_session = [PageClose 7, BrowserClose, PlaywrightStop]"
  by (simp add: exit_steps_def tabbed_session_def browserbase_init_def base_init_def)

text \<open>
  C4 does not hold of the code: when closing the current page raises, the exit ends there.  The
  connection is not closed and the engine is not stopped.
\<close>

theorem exit_session_stops_at_failure_counterexample:
  "exit_session failing_page_close tabbed_session =
     ([PageClose 7], Some (PlaywrightError ''Target closed'')) \<and>
   BrowserClose \<notin> set (fst (exit_session failing_page_close tabbed_session)) \<and>
   PlaywrightStop \<notin> set (fst (exit_session failing_page_close tabbed_session))"
  by (simp add: exit_session_def remote_exit_def seq_def engine_call_def failing_page_close_def
      tabbed_session_def browserbase_init_def base_init_def)

text \<open>
  C4, amended.  On scoped exit the teardown steps are attempted in the order current page
  closed, connection closed, automation engine stopped.  When none of them raises, all of
  them are executed, in that order, followed by the replay line.  When one of them raises,
  the steps before it and the failing step have been attempted and the exception leaves
  the exit.
\<close>

theorem exit_session_in_order:
  "((\<forall>s\<in>set (exit_steps c). raises s = None) \<longrightarrow>
      exit_session raises c = (exit_steps c @ exit_message c, None)) \<and>
   (exit_steps c = pre @ s # post \<and> (\<forall>x\<in>set pre. raises x = None) \<and> raises s = Some msg \<longrightarrow>
      exit_session raises c = (pre @ [s], Some (PlaywrightError msg)))"
  by (simp add: exit_session_steps run_steps_ok run_steps_fail seq_def)

theorem exit_session_in_order_witness:
  "exit_session no_failure tabbed_session =
     ([PageClose 7, BrowserClose, PlaywrightStop,
       Print ''Session completed. View replay at https://browserbase.com/sessions/s1''], None) \<and>
   exit_session failing_page_close tabbed_session =
     ([PageClose 7], Some (PlaywrightError ''Target closed''))"
proof -
  have ok: "\<forall>s\<in>set (exit_steps tabbed_session). no_failure s = None"
    by (simp add: no_failure_def)
  have msg: "exit_message tabbed_session =
      [Print ''Session completed. View replay at https://browserbase.com/sessions/s1'']"
    by (simp add: exit_message_def replay_url_def tabbed_session_def browserbase_init_def
        base_init_def)
  have split: "exit_steps tabbed_session = [] @ PageClose 7 # [BrowserClose, PlaywrightStop]"
    by (simp add: exit_steps_tabbed)
  have bad: "failing_page_close (PageClose 7) = Some ''Target closed''"
    by (simp add: failing_page_close_def)
  from exit_session_in_order [where c = tabbed_session and raises = no_failure] ok
  have "exit_session no_failure tabbed_session =
      (exit_steps tabbed_session @ exit_message tabbed_session, None)"
    by blast
  moreover
  from exit_session_in_order [where c = tabbed_session and pre = "[]" and s = "PageClose 7"
      and post = "[BrowserClose, PlaywrightStop]" and raises = failing_page_close
      and msg = "''Target closed''"] split bad
  have "exit_session failing_page_close tabbed_session =
      ([PageClose 7], Some (PlaywrightError ''Target closed''))"
    by simp
  ultimately show ?thesis
    by (simp add: exit_steps_tabbed msg)
qed

section \<open>Screenshots\<close>

text \<open>
  C8.  For a backend with the CDP screenshot path and a current page: when the capture
  call fails (creating the CDP session, or sending \<^verbatim>\<open>Page.captureScreenshot\<close>),
  \<^verbatim>\<open>screenshot\<close> logs the failure and returns what the default viewport screenshot
  returns; when that one succeeds, the result is its base64-encoded PNG and the capture
  failure is not raised.
\<close>

theorem screenshot_falls_back:
  "kind c \<noteq> BasePlaywrightComputer \<Longrightarrow> page c = Some p \<Longrightarrow>
   new_cdp_session env p = Inl msg \<or>
     (new_cdp_session env p = Inr cdp \<and> cdp_send env cdp = Inl msg) \<Longrightarrow>
   screenshot env c = (Print (fallback_message (kind c) msg) # fst (base_screenshot env c),
                       snd (base_screenshot env c)) \<and>
   (page_screenshot env p = Inr png \<longrightarrow> snd (screenshot env c) = Inr (b64encode env png))"
  by (cases "kind c")
     (auto simp add: screenshot_def remote_screenshot_def cdp_capture_def base_screenshot_def
        split: prod.splits)

theorem screenshot_falls_back_witness:
  "screenshot failing_cdp_engine tabbed_session =
     ([Print ''CDP screenshot failed, falling back to default screenshot: Protocol error''],
      Inr ''iVBORw=='')"
proof -
  have "kind tabbed_session \<noteq> BasePlaywrightComputer" "page tabbed_session = Some 7"
    by (simp_all add: tabbed_session_def browserbase_init_def base_init_def)
  moreover have "new_cdp_session failing_cdp_engine 7 = Inr 0 \<and>
      cdp_send failing_cdp_engine 0 = Inl ''Protocol error''"
    by (simp add: failing_cdp_engine_def)
  moreover have "page_screenshot failing_cdp_engine 7 = Inr [137, 80, 78, 71]"
    by (simp add: failing_cdp_engine_def)
  ultimately have
    "screenshot failing_cdp_engine tabbed_session =
      (Print (fallback_message (kind tabbed_session) ''Protocol error'')
         # fst (base_screenshot failing_cdp_engine tabbed_session),
       snd (base_screenshot failing_cdp_engine tabbed_session))"
    "snd (screenshot failing_cdp_engine tabbed_session) =
       Inr (b64encode failing_cdp_engine [137, 80, 78, 71])"
    using screenshot_falls_back
      [of tabbed_session 7 failing_cdp_engine "''Protocol error''" 0 "[137, 80, 78, 71]"]
    by blast+
  then show ?thesis
    by (simp add: base_screenshot_def fallback_message_def failing_cdp_engine_def
        tabbed_session_def browserbase_init_def base_init_def)
qed

text \<open>
  A response without \<^verbatim>\<open>"data"\<close> is not an engine failure: the \<^verbatim>\<open>KeyError\<close> is raised
  inside the \<^verbatim>\<open>try\<close> block and is not caught.
\<close>

lemma screenshot_missing_data:
  "screenshot (failing_cdp_engine\<lparr>cdp_send := (\<lambda>s. Inr Map.empty)\<rparr>) tabbed_session
     = ([], Inl (KeyError ''data''))"
  by (simp add: screenshot_def remote_screenshot_def cdp_capture_def failing_cdp_engine_def
      tabbed_session_def browserbase_init_def base_init_def)

section \<open>Viewport dimensions\<close>

text \<open>
  C9.  \<^verbatim>\<open>LumiTehBrowser\<close> stores the viewport it is given but inherits
  \<^verbatim>\<open>get_dimensions\<close> from the base class: it reports 1280 by 1080 whatever viewport was
  configured, also for the default 1024 by 768.  \<^verbatim>\<open>BrowserbaseBrowser\<close> reports the
  configured viewport.
\<close>

theorem lumiteh_get_dimensions_ignores_viewport:
  "dimensions (lumiteh_init 800 600) = Some (800, 600) \<and>
   get_dimensions (lumiteh_init 800 600) = Inr (1280, 1080) \<and>
   get_dimensions (lumiteh_init default_width default_height) = Inr (1280, 1080) \<and>
   get_dimensions (browserbase_init 800 600) = Inr (800, 600)"
  by (simp add: get_dimensions_def base_get_dimensions_def browserbase_get_dimensions_def
      lumiteh_init_def browserbase_init_def base_init_def)

section \<open>Request interception\<close>

text \<open>On a page that carries the route, a request is aborted exactly when it is blocklisted.\<close>

lemma routed_page_request:
  "page c = Some p \<Longrightarrow> p \<in> routed c \<Longrightarrow>
   current_page_request blocklisted c url =
     (if blocklisted url then [Print (''Flagging blocked domain: '' @ url), RouteAbort]
      else [RouteContinue])"
  by (simp add: current_page_request_def handle_route_def)

lemma entered_page_routed:
  "page (enter c b p sid) = Some p \<and> p \<in> routed (enter c b p sid)"
  by (simp add: enter_def)

text \<open>
  C5.  The route is installed in \<^verbatim>\<open>__enter__\<close> on the page of that moment only.  After a
  new-page event the current page is the new tab, which carries no route: a blocklisted
  request on it reaches no handler and is not aborted, while the same request on the
  initial page is.
\<close>

theorem popup_request_not_intercepted:
  "ads_blocklist ''https://ads.example.com/x.js'' \<and>
   page popup_session = Some 1 \<and>
   current_page_request ads_blocklist popup_session ''https://ads.example.com/x.js'' = [] \<and>
   current_page_request ads_blocklist (enter (browserbase_init 1024 768) [[0]] 0 (Some ''s1''))
     ''https://ads.example.com/x.js''
     = [Print ''Flagging blocked domain: https://ads.example.com/x.js'', RouteAbort]"
  by (simp add: current_page_request_def handle_route_def ads_blocklist_def popup_session_def
      handle_new_page_def enter_def browserbase_init_def base_init_def)

end
